theory Spec2Isabelle
  imports Main "HOL-Library.Word"
begin

section \<open>The phonebook command-line actions of mbimcli (cli/mbimcli-phonebook.c)\<close>

text \<open>
  The C file is embedded function by function. Every call that leaves the file (GLib,
  libmbim-glib, libc, the mbimcli front end) is recorded as an event of a trace, in the
  order the C code makes the calls; the file's own static variables are the fields of
  the record \<open>world\<close>. GObject and slice pointers are natural numbers.
\<close>

subsection \<open>Options\<close>

type_synonym gpointer = nat
type_synonym guint32 = "32 word"

text \<open>
  The seven static option variables. A \<open>gboolean\<close> written by \<open>G_OPTION_ARG_NONE\<close> is
  \<open>FALSE\<close> or \<open>TRUE\<close>; a \<open>gint\<close> is a 32-bit word; a \<open>gchar *\<close> is \<open>None\<close> when \<open>NULL\<close>.
\<close>

record options =
  phonebook_configuration_flag :: bool
  phonebook_read_index :: guint32
  phonebook_read_all_flag :: bool
  phonebook_write_str :: "string option"
  phonebook_entry_update_str :: "string option"
  phonebook_delete_index :: guint32
  phonebook_delete_all_flag :: bool

text \<open>The statics before option parsing: C zero-initialises them.\<close>

definition no_options :: options where
  "no_options = \<lparr> phonebook_configuration_flag = False,
                  phonebook_read_index = 0,
                  phonebook_read_all_flag = False,
                  phonebook_write_str = None,
                  phonebook_entry_update_str = None,
                  phonebook_delete_index = 0,
                  phonebook_delete_all_flag = False \<rparr>"

text \<open>
  The table \<open>entries[]\<close>: each command-line option with the variable it writes.
  \<open>G_OPTION_ARG_NONE\<close> stores \<open>TRUE\<close>, \<open>G_OPTION_ARG_INT\<close> the parsed integer,
  \<open>G_OPTION_ARG_STRING\<close> the argument text.
\<close>

datatype cli_option =
    Opt_phonebook_query_configuration
  | Opt_phonebook_read guint32
  | Opt_phonebook_read_all
  | Opt_phonebook_write string
  | Opt_phonebook_entry_update string
  | Opt_phonebook_delete guint32
  | Opt_phonebook_delete_all

fun store_option :: "cli_option \<Rightarrow> options \<Rightarrow> options" where
  "store_option Opt_phonebook_query_configuration opts = opts\<lparr>phonebook_configuration_flag := True\<rparr>"
| "store_option (Opt_phonebook_read i) opts = opts\<lparr>phonebook_read_index := i\<rparr>"
| "store_option Opt_phonebook_read_all opts = opts\<lparr>phonebook_read_all_flag := True\<rparr>"
| "store_option (Opt_phonebook_write str) opts = opts\<lparr>phonebook_write_str := Some str\<rparr>"
| "store_option (Opt_phonebook_entry_update str) opts = opts\<lparr>phonebook_entry_update_str := Some str\<rparr>"
| "store_option (Opt_phonebook_delete i) opts = opts\<lparr>phonebook_delete_index := i\<rparr>"
| "store_option Opt_phonebook_delete_all opts = opts\<lparr>phonebook_delete_all_flag := True\<rparr>"

definition parse_command_line :: "cli_option list \<Rightarrow> options" where
  "parse_command_line args = fold store_option args no_options"

subsection \<open>Requests, callbacks and events\<close>

datatype MbimPhonebookFlag = MBIM_PHONEBOOK_FLAG_ALL | MBIM_PHONEBOOK_FLAG_INDEX

datatype MbimPhonebookWriteFlag =
  MBIM_PHONEBOOK_WRITE_FLAG_SAVE_UNUSED | MBIM_PHONEBOOK_WRITE_FLAG_SAVE_INDEX

text \<open>
  A request message is the constructor of libmbim-glib that built it, with its arguments:
  \<open>mbim_message_phonebook_configuration_query_new\<close>, \<open>..._read_query_new (flag, index)\<close>,
  \<open>..._delete_set_new (flag, index)\<close>, \<open>..._write_set_new (flag, index, number, name)\<close>.
\<close>

datatype request =
    Phonebook_configuration_query
  | Phonebook_read_query MbimPhonebookFlag guint32
  | Phonebook_delete_set MbimPhonebookFlag guint32
  | Phonebook_write_set MbimPhonebookWriteFlag guint32 "string option" "string option"

datatype callback =
    Query_phonebook_configuration_ready
  | Query_phonebook_read_ready
  | Set_phonebook_delete_ready
  | Set_phonebook_write_ready

datatype event =
    Printerr string
  | Print string
  | Debug string
  | Warn_if_reached
  | Exit nat
  | Abort
  | Object_ref gpointer
  | Object_unref gpointer
  | Slice_free
  | Device_command "gpointer option" request nat "gpointer option" callback
  | Message_unref_request
  | Message_unref_response
  | Error_free
  | Strfreev
  | Free_vector
  | Entry_array_free
  | Async_operation_done bool
  | Undefined_behaviour

subsection \<open>Static state\<close>

record Context =
  device :: "gpointer option"
  cancellable :: "gpointer option"

text \<open>
  The static pointer \<open>ctx\<close>: \<open>NULL\<close> at start, the slice allocated by
  \<open>mbimcli_phonebook_run\<close>, or the same address after \<open>g_slice_free\<close> (the C code does
  not reset the pointer).
\<close>

datatype ctx_pointer = Null | Live Context | Dangling

record world =
  ctx :: ctx_pointer
  n_actions :: nat
  checked :: bool
  trace :: "event list"

definition initial :: world where
  "initial = \<lparr> ctx = Null, n_actions = 0, checked = False, trace = [] \<rparr>"

definition emit :: "event \<Rightarrow> world \<Rightarrow> world" where
  "emit e w = w\<lparr>trace := trace w @ [e]\<rparr>"

definition emits :: "event list \<Rightarrow> world \<Rightarrow> world" where
  "emits es w = w\<lparr>trace := trace w @ es\<rparr>"

text \<open>Projections of a trace.\<close>

fun commands :: "event list \<Rightarrow> (gpointer option \<times> request \<times> nat \<times> gpointer option \<times> callback) list" where
  "commands [] = []"
| "commands (Device_command d r t c k # es) = (d, r, t, c, k) # commands es"
| "commands (e # es) = commands es"

fun finalizations :: "event list \<Rightarrow> bool list" where
  "finalizations [] = []"
| "finalizations (Async_operation_done b # es) = b # finalizations es"
| "finalizations (e # es) = finalizations es"

fun stderr_of :: "event list \<Rightarrow> string list" where
  "stderr_of [] = []"
| "stderr_of (Printerr m # es) = m # stderr_of es"
| "stderr_of (e # es) = stderr_of es"

fun stdout_of :: "event list \<Rightarrow> string list" where
  "stdout_of [] = []"
| "stdout_of (Print m # es) = m # stdout_of es"
| "stdout_of (e # es) = stdout_of es"



subsection \<open>\<open>mbimcli_phonebook_options_enabled\<close>\<close>

definition nl :: string where
  "nl = [CHR 0x0A]"

definition tab :: string where
  "tab = [CHR 0x09]"

text \<open>\<open>EXIT_FAILURE\<close> of \<open>stdlib.h\<close> on the platforms GLib supports.\<close>

definition EXIT_FAILURE :: nat where
  "EXIT_FAILURE = 1"

text \<open>A call either returns a value or ends the process (\<open>exit\<close> does not return).\<close>

datatype 'a result = Returned 'a | Exited

definition mbimcli_phonebook_options_enabled :: "options \<Rightarrow> world \<Rightarrow> bool result \<times> world" where
  "mbimcli_phonebook_options_enabled opts w =
     (if checked w then (Returned (n_actions w \<noteq> 0), w)
      else
        let n = of_bool (phonebook_configuration_flag opts) +
                of_bool (phonebook_read_index opts \<noteq> 0) +
                of_bool (phonebook_read_all_flag opts) +
                of_bool (phonebook_write_str opts \<noteq> None) +
                of_bool (phonebook_entry_update_str opts \<noteq> None) +
                of_bool (phonebook_delete_index opts \<noteq> 0) +
                of_bool (phonebook_delete_all_flag opts);
            w1 = w\<lparr>n_actions := n\<rparr>
        in if n > 1
           then (Exited,
                 emit (Exit EXIT_FAILURE)
                   (emit (Printerr (''error: too many phonebook actions requested'' @ nl)) w1))
           else (Returned (n \<noteq> 0), w1\<lparr>checked := True\<rparr>))"

subsection \<open>\<open>context_free\<close> and \<open>shutdown\<close>\<close>

definition context_free :: "ctx_pointer \<Rightarrow> world \<Rightarrow> world" where
  "context_free context w =
     (case context of
        Null \<Rightarrow> w
      | Live c \<Rightarrow>
          let w1 = (case cancellable c of Some p \<Rightarrow> emit (Object_unref p) w | None \<Rightarrow> w);
              w2 = (case device c of Some p \<Rightarrow> emit (Object_unref p) w1 | None \<Rightarrow> w1)
          in (emit Slice_free w2)\<lparr>ctx := Dangling\<rparr>
      | Dangling \<Rightarrow> emit Undefined_behaviour w)"

text \<open>\<open>mbimcli_async_operation_done (operation_status)\<close> is the front end's; it is an event here.\<close>

definition shutdown :: "bool \<Rightarrow> world \<Rightarrow> world" where
  "shutdown operation_status w =
     emit (Async_operation_done operation_status) (context_free (ctx w) w)"

subsection \<open>\<open>phonebook_write_input_parse\<close>\<close>

text \<open>
  GLib's \<open>g_strsplit (str, ",", -1)\<close>: a new piece starts after every comma, pieces may
  be empty, and the empty string splits into the empty vector.
\<close>

fun split_pieces :: "string \<Rightarrow> string \<Rightarrow> string list" where
  "split_pieces piece [] = [piece]"
| "split_pieces piece (c # cs) =
     (if c = CHR '','' then piece # split_pieces [] cs else split_pieces (piece @ [c]) cs)"

definition g_strsplit :: "string \<Rightarrow> string list" where
  "g_strsplit str = (if str = [] then [] else split_pieces [] str)"

text \<open>
  \<open>split[i]\<close> of a \<open>NULL\<close>-terminated vector: the \<open>i\<close>-th string, \<open>NULL\<close> at the
  terminator. The parser reads indices 0, 1 and 2 of a vector of 2 or 3 strings only.
  The out parameters \<open>name\<close>, \<open>number\<close> and \<open>index_str\<close> are the components of the
  returned triple; a failed \<open>g_assert\<close> on \<open>n_expected\<close> aborts the process.
\<close>

definition strv_nth :: "string list \<Rightarrow> nat \<Rightarrow> string option" where
  "strv_nth split i = (if i < length split then Some (split ! i) else None)"

definition phonebook_write_input_parse ::
  "nat \<Rightarrow> string \<Rightarrow> world \<Rightarrow> (string option \<times> string option \<times> string option) option result \<times> world" where
  "phonebook_write_input_parse n_expected str w =
     (if \<not> (n_expected = 2 \<or> n_expected = 3) then (Exited, emit Abort w)
      else
        let split = g_strsplit str
        in if length split > n_expected
           then (Returned None,
                 emits [Printerr (''error: couldn't parse input string, too many arguments'' @ nl),
                        Strfreev] w)
           else if length split < n_expected
           then (Returned None,
                 emits [Printerr (''error: couldn't parse input string, missing arguments'' @ nl),
                        Strfreev] w)
           else (Returned (Some (strv_nth split 0, strv_nth split 1, strv_nth split 2)),
                 emit Free_vector w))"

subsection \<open>\<open>atoi\<close> and \<open>%d\<close>\<close>

definition isspace :: "char \<Rightarrow> bool" where
  "isspace c = (c \<in> set [CHR 0x20, CHR 0x09, CHR 0x0A, CHR 0x0B, CHR 0x0C, CHR 0x0D])"

definition isdigit :: "char \<Rightarrow> bool" where
  "isdigit c = (c \<in> set ''0123456789'')"

definition digit_value :: "char \<Rightarrow> int" where
  "digit_value c = int (of_char c) - 48"

fun digits_value :: "int \<Rightarrow> string \<Rightarrow> int" where
  "digits_value acc [] = acc"
| "digits_value acc (c # cs) =
     (if isdigit c then digits_value (10 * acc + digit_value c) cs else acc)"

text \<open>
  \<open>strtol (nptr, NULL, 10)\<close>: white space, an optional sign, then the longest run of
  digits (value 0 when there is none); the result saturates at the bounds of \<open>long\<close>.
\<close>

definition strtol :: "string \<Rightarrow> int" where
  "strtol nptr =
     (let s = dropWhile isspace nptr;
          v = (case s of
                 [] \<Rightarrow> 0
               | c # cs \<Rightarrow> if c = CHR ''-'' then - digits_value 0 cs
                           else if c = CHR ''+'' then digits_value 0 cs
                           else digits_value 0 s)
      in max (- (2 ^ 63)) (min (2 ^ 63 - 1) v))"

text \<open>
  \<open>atoi\<close> is \<open>(int) strtol (nptr, NULL, 10)\<close> in glibc; the \<open>gint\<close> is then passed as the
  \<open>guint32\<close> index of the request, which keeps its 32 bits.
\<close>

definition atoi :: "string \<Rightarrow> guint32" where
  "atoi nptr = word_of_int (strtol nptr)"

function show_nat :: "nat \<Rightarrow> string" where
  "show_nat n =
     (if n < 10 then [''0123456789'' ! n]
      else show_nat (n div 10) @ [''0123456789'' ! (n mod 10)])"
  by pat_completeness auto
termination
  by (relation "measure id") auto

declare show_nat.simps [simp del]

text \<open>The conversion \<open>%d\<close> applied to a 32-bit argument: the decimal of its signed value.\<close>

definition printf_d :: "guint32 \<Rightarrow> string" where
  "printf_d x = (if sint x < 0 then CHR ''-'' # show_nat (nat (- sint x)) else show_nat (nat (sint x)))"

subsection \<open>The completion callbacks\<close>

record GError =
  message :: string

record phonebook_configuration =
  state :: guint32
  number_of_entries :: guint32
  used_entries :: guint32
  max_number_length :: guint32
  max_name :: guint32

record MbimPhonebookEntry =
  entry_index :: guint32
  number :: string
  name :: string

text \<open>
  The response parsers and the label lookup of libmbim-glib are parameters: a parser
  returns \<open>Inl\<close> of the error it sets when it returns \<open>FALSE\<close>, and \<open>Inr\<close> of its out
  parameters otherwise. \<open>'m\<close> is the type of response messages.
\<close>

record 'm codec =
  mbim_message_phonebook_configuration_response_parse :: "'m \<Rightarrow> GError + phonebook_configuration"
  mbim_message_phonebook_read_response_parse :: "'m \<Rightarrow> GError + guint32 \<times> MbimPhonebookEntry list"
  mbim_message_phonebook_delete_response_parse :: "'m \<Rightarrow> GError + unit"
  mbim_message_phonebook_write_response_parse :: "'m \<Rightarrow> GError + unit"
  mbim_phonebook_state_get_string :: "guint32 \<Rightarrow> string option"

text \<open>What \<open>mbim_device_command_finish (device, res, &error)\<close> yields for the result \<open>res\<close>.\<close>

datatype 'm async_result = Command_failed GError | Command_response 'm

definition VALIDATE_UNKNOWN :: "string option \<Rightarrow> string" where
  "VALIDATE_UNKNOWN str = (case str of Some s \<Rightarrow> s | None \<Rightarrow> ''unknown'')"

definition operation_failed :: "GError \<Rightarrow> world \<Rightarrow> world" where
  "operation_failed error w =
     shutdown False
       (emits [Printerr (''error: operation failed: '' @ message error @ nl), Error_free] w)"

definition parse_failed :: "GError \<Rightarrow> world \<Rightarrow> world" where
  "parse_failed error w =
     shutdown False
       (emits [Printerr (''error: couldn't parse response message: '' @ message error @ nl),
               Error_free] w)"

definition set_phonebook_write_ready :: "'m codec \<Rightarrow> 'm async_result \<Rightarrow> world \<Rightarrow> world" where
  "set_phonebook_write_ready cd res w =
     (case res of
        Command_failed error \<Rightarrow> operation_failed error w
      | Command_response response \<Rightarrow>
          (case mbim_message_phonebook_write_response_parse cd response of
             Inl error \<Rightarrow> parse_failed error w
           | Inr u \<Rightarrow>
               shutdown True
                 (emits [Print (''Phonebook entry successfully written/updated'' @ nl),
                         Message_unref_response] w)))"

definition set_phonebook_delete_ready :: "'m codec \<Rightarrow> 'm async_result \<Rightarrow> world \<Rightarrow> world" where
  "set_phonebook_delete_ready cd res w =
     (case res of
        Command_failed error \<Rightarrow> operation_failed error w
      | Command_response response \<Rightarrow>
          (case mbim_message_phonebook_delete_response_parse cd response of
             Inl error \<Rightarrow> parse_failed error w
           | Inr u \<Rightarrow>
               shutdown True
                 (emits [Print ''Phonebook entry/entries successfully deleted'',
                         Message_unref_response] w)))"

definition entry_text :: "MbimPhonebookEntry \<Rightarrow> string" where
  "entry_text e =
     tab @ ''Entry index : '' @ printf_d (entry_index e) @ '' '' @ nl @
     tab @ ''      Number: '' @ number e @ '' '' @ nl @
     tab @ ''        Name: '' @ name e @ '' '' @ nl"

text \<open>
  The loop \<open>for (i = 0; i < entry_count; i++)\<close>. The comparison is unsigned; \<open>i\<close> is a
  \<open>gint\<close>, so incrementing it past \<open>2^31 - 1\<close> is undefined, and so is reading the
  vector at or beyond its \<open>NULL\<close> terminator.
\<close>

function print_entries :: "nat \<Rightarrow> nat \<Rightarrow> MbimPhonebookEntry list \<Rightarrow> world \<Rightarrow> world" where
  "print_entries i entry_count phonebook_entries w =
     (if i < entry_count then
        (if i < length phonebook_entries then
           (let w1 = emit (Print (entry_text (phonebook_entries ! i))) w
            in if Suc i < 2 ^ 31 then print_entries (Suc i) entry_count phonebook_entries w1
               else emit Undefined_behaviour w1)
         else emit Undefined_behaviour w)
      else w)"
  by pat_completeness auto
termination
  by (relation "measure (\<lambda>(i, entry_count, phonebook_entries, w). entry_count - i)") auto

declare print_entries.simps [simp del]

definition query_phonebook_read_ready :: "'m codec \<Rightarrow> 'm async_result \<Rightarrow> world \<Rightarrow> world" where
  "query_phonebook_read_ready cd res w =
     (case res of
        Command_failed error \<Rightarrow> operation_failed error w
      | Command_response response \<Rightarrow>
          (case mbim_message_phonebook_read_response_parse cd response of
             Inl error \<Rightarrow> parse_failed error w
           | Inr (entry_count, phonebook_entries) \<Rightarrow>
               let w1 = emits [Print (''Successfully read phonebook entry/entries'' @ nl),
                               Print (tab @ ''Phonebook entries count: '' @ printf_d entry_count @ nl)] w;
                   w2 = print_entries 0 (unat entry_count) phonebook_entries w1
               in shutdown True (emits [Entry_array_free, Message_unref_response] w2)))"

definition configuration_text :: "string \<Rightarrow> phonebook_configuration \<Rightarrow> string" where
  "configuration_text state_str cfg =
     nl @ '' Phonebook configuration retrived... '' @ nl @
     tab @ ''   Phonebook state: '' @ state_str @ '' '' @ nl @
     tab @ '' Number of entries: '' @ printf_d (number_of_entries cfg) @ '' '' @ nl @
     tab @ ''      used entries: '' @ printf_d (used_entries cfg) @ '' '' @ nl @
     tab @ '' max number length: '' @ printf_d (max_number_length cfg) @ '' '' @ nl @
     tab @ ''         max name : '' @ printf_d (max_name cfg) @ '' '' @ nl"

definition query_phonebook_configuration_ready :: "'m codec \<Rightarrow> 'm async_result \<Rightarrow> world \<Rightarrow> world" where
  "query_phonebook_configuration_ready cd res w =
     (case res of
        Command_failed error \<Rightarrow> operation_failed error w
      | Command_response response \<Rightarrow>
          (case mbim_message_phonebook_configuration_response_parse cd response of
             Inl error \<Rightarrow> parse_failed error w
           | Inr cfg \<Rightarrow>
               let state_str = mbim_phonebook_state_get_string cd (state cfg)
               in shutdown True
                    (emits [Print (configuration_text (VALIDATE_UNKNOWN state_str) cfg),
                            Message_unref_response] w)))"

subsection \<open>\<open>mbimcli_phonebook_run\<close>\<close>

text \<open>
  \<open>mbim_device_command (ctx->device, request, 10, ctx->cancellable, callback, NULL)\<close>
  followed by \<open>mbim_message_unref (request)\<close>. Reading a field through a pointer that
  is not a live slice is undefined.
\<close>

definition submit :: "request \<Rightarrow> callback \<Rightarrow> world \<Rightarrow> world" where
  "submit req ready w =
     (case ctx w of
        Live c \<Rightarrow> emits [Device_command (device c) req 10 (cancellable c) ready,
                         Message_unref_request] w
      | Null \<Rightarrow> emit Undefined_behaviour w
      | Dangling \<Rightarrow> emit Undefined_behaviour w)"

text \<open>
  \<open>g_slice_new\<close> does not clear the slice, and \<open>ctx->cancellable\<close> is assigned only when
  \<open>cancellable\<close> is not \<open>NULL\<close>: otherwise the field keeps what the memory held, the
  parameter \<open>garbage\<close>.
\<close>

definition mbimcli_phonebook_run ::
  "options \<Rightarrow> gpointer \<Rightarrow> gpointer option \<Rightarrow> gpointer option \<Rightarrow> world \<Rightarrow> world" where
  "mbimcli_phonebook_run opts dev cancel garbage w0 =
     (let w1 = emit (Object_ref dev) w0;
          w2 = (case cancel of Some p \<Rightarrow> emit (Object_ref p) w1 | None \<Rightarrow> w1);
          w = w2\<lparr>ctx := Live \<lparr> device = Some dev,
                               cancellable = (case cancel of Some p \<Rightarrow> Some p | None \<Rightarrow> garbage) \<rparr>\<rparr>
      in
      if phonebook_configuration_flag opts then
        submit Phonebook_configuration_query Query_phonebook_configuration_ready
          (emit (Debug ''Asynchronously querying phonebook configurations...'') w)
      else if phonebook_read_index opts \<noteq> 0 then
        submit (Phonebook_read_query MBIM_PHONEBOOK_FLAG_INDEX (phonebook_read_index opts))
          Query_phonebook_read_ready
          (emit (Debug ''Asynchronously querying phonebook read...'') w)
      else if phonebook_read_all_flag opts then
        submit (Phonebook_read_query MBIM_PHONEBOOK_FLAG_ALL 0) Query_phonebook_read_ready
          (emit (Debug ''Asynchronously querying phonebook read all...'') w)
      else if phonebook_delete_index opts \<noteq> 0 then
        submit (Phonebook_delete_set MBIM_PHONEBOOK_FLAG_INDEX (phonebook_delete_index opts))
          Set_phonebook_delete_ready
          (emit (Debug ''Asynchronously phonebook delete...'') w)
      else if phonebook_delete_all_flag opts then
        submit (Phonebook_delete_set MBIM_PHONEBOOK_FLAG_ALL 0) Set_phonebook_delete_ready
          (emit (Debug ''Asynchronously phonebook delete all...'') w)
      else
        (case phonebook_write_str opts of
           Some str \<Rightarrow>
             (case phonebook_write_input_parse 2 str
                     (emit (Debug ''Asynchronously writing phonebook...'') w) of
                (Exited, w') \<Rightarrow> w'
              | (Returned None, w') \<Rightarrow> shutdown False w'
              | (Returned (Some (nm, num, index_str)), w') \<Rightarrow>
                  submit (Phonebook_write_set MBIM_PHONEBOOK_WRITE_FLAG_SAVE_UNUSED 0 num nm)
                    Set_phonebook_write_ready w')
         | None \<Rightarrow>
             (case phonebook_entry_update_str opts of
                Some str \<Rightarrow>
                  (case phonebook_write_input_parse 3 str
                          (emit (Debug ''Asynchronously updating phonebook entry...'') w) of
                     (Exited, w') \<Rightarrow> w'
                   | (Returned None, w') \<Rightarrow> shutdown False w'
                   | (Returned (Some (nm, num, index_str)), w') \<Rightarrow>
                       (case index_str of
                          None \<Rightarrow> emit Undefined_behaviour w'
                        | Some text \<Rightarrow>
                            submit (Phonebook_write_set MBIM_PHONEBOOK_WRITE_FLAG_SAVE_INDEX
                                      (atoi text) num nm)
                              Set_phonebook_write_ready w'))
              | None \<Rightarrow> emit Warn_if_reached w)))"

subsection \<open>One operation from start to finalization\<close>

text \<open>The call of the registered function pointer.\<close>

definition invoke :: "'m codec \<Rightarrow> callback \<Rightarrow> 'm async_result \<Rightarrow> world \<Rightarrow> world" where
  "invoke cd ready res w =
     (case ready of
        Query_phonebook_configuration_ready \<Rightarrow> query_phonebook_configuration_ready cd res w
      | Query_phonebook_read_ready \<Rightarrow> query_phonebook_read_ready cd res w
      | Set_phonebook_delete_ready \<Rightarrow> set_phonebook_delete_ready cd res w
      | Set_phonebook_write_ready \<Rightarrow> set_phonebook_write_ready cd res w)"

text \<open>
  Modelled from the spec: the transport \<open>mbim_device_command\<close> of libmbim-glib, whose
  code is not part of this file, "invokes \<open>onComplete (device, result)\<close> exactly once"
  for a submitted request. The operation is \<open>mbimcli_phonebook_run\<close> followed by that
  one invocation for each request the run submitted.
\<close>

definition phonebook_operation ::
  "'m codec \<Rightarrow> options \<Rightarrow> gpointer \<Rightarrow> gpointer option \<Rightarrow> gpointer option \<Rightarrow> 'm async_result \<Rightarrow> world \<Rightarrow> world" where
  "phonebook_operation cd opts dev cancel garbage res w0 =
     (let w1 = mbimcli_phonebook_run opts dev cancel garbage w0
      in fold (\<lambda>(d, r, t, c, ready). invoke cd ready res)
           (commands (drop (length (trace w0)) (trace w1))) w1)"

subsection \<open>Notions used to state the properties\<close>

text \<open>
  The seven truth values that \<open>mbimcli_phonebook_options_enabled\<close> adds up: a flag as
  it is, an index when it is not zero, a string when it is not \<open>NULL\<close>.
\<close>

definition action_indicators :: "options \<Rightarrow> bool list" where
  "action_indicators opts =
     [phonebook_configuration_flag opts,
      phonebook_read_index opts \<noteq> 0,
      phonebook_read_all_flag opts,
      phonebook_write_str opts \<noteq> None,
      phonebook_entry_update_str opts \<noteq> None,
      phonebook_delete_index opts \<noteq> 0,
      phonebook_delete_all_flag opts]"

text \<open>
  A text in which \<open>strtol\<close> finds no number: after the white space and one optional
  sign, it ends or continues with a character that is not a digit.
\<close>

definition no_leading_number :: "string \<Rightarrow> bool" where
  "no_leading_number str =
     (case dropWhile isspace str of
        [] \<Rightarrow> True
      | c # cs \<Rightarrow>
          if c = CHR ''-'' \<or> c = CHR ''+''
          then (case cs of [] \<Rightarrow> True | d # ds \<Rightarrow> \<not> isdigit d)
          else \<not> isdigit c)"

text \<open>
  A codec for examples: a configuration with the unlabelled state 7, a read response
  of two entries, a delete acknowledgement and a write response that does not parse.
\<close>

definition example_codec :: "unit codec" where
  "example_codec =
     \<lparr> mbim_message_phonebook_configuration_response_parse =
         (\<lambda>m. Inr \<lparr> state = 7, number_of_entries = 250, used_entries = 2,
                     max_number_length = 20, max_name = 14 \<rparr>),
       mbim_message_phonebook_read_response_parse =
         (\<lambda>m. Inr (2, [\<lparr> entry_index = 1, number = ''555-1000'', name = ''Alice'' \<rparr>,
                        \<lparr> entry_index = 2, number = ''555-2000'', name = ''Bob'' \<rparr>])),
       mbim_message_phonebook_delete_response_parse = (\<lambda>m. Inr ()),
       mbim_message_phonebook_write_response_parse = (\<lambda>m. Inl \<lparr> message = ''invalid'' \<rparr>),
       mbim_phonebook_state_get_string =
         (\<lambda>s. if s = 0 then Some ''not-initialized''
               else if s = 1 then Some ''initialized'' else None) \<rparr>"






section \<open>Properties\<close>

subsection \<open>Projections distribute over concatenation\<close>

lemma commands_append: "commands (xs @ ys) = commands xs @ commands ys"
  by (induction xs rule: commands.induct) simp_all

lemma finalizations_append: "finalizations (xs @ ys) = finalizations xs @ finalizations ys"
  by (induction xs rule: finalizations.induct) simp_all

lemma stderr_of_append: "stderr_of (xs @ ys) = stderr_of xs @ stderr_of ys"
  by (induction xs rule: stderr_of.induct) simp_all

lemma stdout_of_append: "stdout_of (xs @ ys) = stdout_of xs @ stdout_of ys"
  by (induction xs rule: stdout_of.induct) simp_all



subsection \<open>The operation selector\<close>

lemma count_indicators: "length (filter id bs) = sum_list (map of_bool bs)"
  by (induction bs) simp_all

lemma n_actions_indicators:
  "of_bool (phonebook_configuration_flag opts) +
   of_bool (phonebook_read_index opts \<noteq> 0) +
   of_bool (phonebook_read_all_flag opts) +
   of_bool (phonebook_write_str opts \<noteq> None) +
   of_bool (phonebook_entry_update_str opts \<noteq> None) +
   of_bool (phonebook_delete_index opts \<noteq> 0) +
   of_bool (phonebook_delete_all_flag opts) = length (filter id (action_indicators opts))"
  unfolding count_indicators action_indicators_def
  by (simp only: list.map sum_list.Cons sum_list.Nil add.assoc add_0_right)

text \<open>
  Claim C2. When more than one of the action indicators is set, the first call of the
  selector prints the error and ends the process with the nonzero status
  \<open>EXIT_FAILURE\<close>; it submits no command to the device.
\<close>

theorem too_many_actions_abort:
  assumes "\<not> checked w" and "1 < length (filter id (action_indicators opts))"
  shows "fst (mbimcli_phonebook_options_enabled opts w) = Exited \<and>
         trace (snd (mbimcli_phonebook_options_enabled opts w)) =
           trace w @ [Printerr (''error: too many phonebook actions requested'' @ nl),
                      Exit EXIT_FAILURE] \<and>
         EXIT_FAILURE \<noteq> 0 \<and>
         commands (trace (snd (mbimcli_phonebook_options_enabled opts w))) = commands (trace w)"
  using assms unfolding mbimcli_phonebook_options_enabled_def n_actions_indicators
  by (simp add: Let_def emit_def EXIT_FAILURE_def commands_append)

theorem too_many_actions_abort_witness:
  "\<not> checked initial \<and>
   1 < length (filter id (action_indicators
         (parse_command_line [Opt_phonebook_read 3, Opt_phonebook_delete_all]))) \<and>
   fst (mbimcli_phonebook_options_enabled
         (parse_command_line [Opt_phonebook_read 3, Opt_phonebook_delete_all]) initial) = Exited \<and>
   trace (snd (mbimcli_phonebook_options_enabled
         (parse_command_line [Opt_phonebook_read 3, Opt_phonebook_delete_all]) initial)) =
     [Printerr (''error: too many phonebook actions requested'' @ nl), Exit 1]"
proof -
  have a: "\<not> checked initial"
    by (simp add: initial_def)
  have b: "1 < length (filter id (action_indicators
         (parse_command_line [Opt_phonebook_read 3, Opt_phonebook_delete_all])))"
    by (simp add: action_indicators_def parse_command_line_def no_options_def)
  from too_many_actions_abort [OF a b] a b show ?thesis
    by (simp add: initial_def EXIT_FAILURE_def)
qed

text \<open>
  Claim C8. Once a call of the selector has returned, every later call returns the same
  answer and leaves the state, trace included, as it is: the flags are not counted
  again (the later call may even see other flags) and nothing is printed.
\<close>

theorem options_enabled_cached:
  "mbimcli_phonebook_options_enabled opts w = (Returned r, w') \<Longrightarrow>
   mbimcli_phonebook_options_enabled opts' w' = (Returned r, w')"
  unfolding mbimcli_phonebook_options_enabled_def n_actions_indicators
  by (auto simp: Let_def split: if_splits)

theorem options_enabled_cached_witness:
  "mbimcli_phonebook_options_enabled (parse_command_line [Opt_phonebook_read_all]) initial =
     (Returned True, initial\<lparr>n_actions := 1, checked := True\<rparr>) \<and>
   mbimcli_phonebook_options_enabled
     (parse_command_line [Opt_phonebook_read_all, Opt_phonebook_delete_all, Opt_phonebook_read 4])
     (initial\<lparr>n_actions := 1, checked := True\<rparr>) =
     (Returned True, initial\<lparr>n_actions := 1, checked := True\<rparr>)"
proof -
  have first: "mbimcli_phonebook_options_enabled (parse_command_line [Opt_phonebook_read_all]) initial =
     (Returned True, initial\<lparr>n_actions := 1, checked := True\<rparr>)"
    by (simp add: mbimcli_phonebook_options_enabled_def parse_command_line_def no_options_def
        initial_def)
  from options_enabled_cached [OF first] first show ?thesis
    by simp
qed

subsection \<open>Zero indices\<close>

lemmas run_defs = mbimcli_phonebook_run_def submit_def emit_def emits_def
  phonebook_write_input_parse_def shutdown_def context_free_def Let_def

text \<open>
  Claim C10. A command line whose only option is \<open>--phonebook-read=0\<close> or
  \<open>--phonebook-delete=0\<close> leaves the option variables as they were; the selector
  counts no action and returns \<open>FALSE\<close> without output, and
  \<open>mbimcli_phonebook_run\<close> on these options submits no command.
\<close>

theorem zero_index_is_no_action:
  "parse_command_line [Opt_phonebook_read 0] = no_options \<and>
   parse_command_line [Opt_phonebook_delete 0] = no_options \<and>
   mbimcli_phonebook_options_enabled (parse_command_line [Opt_phonebook_read 0]) initial =
     (Returned False, initial\<lparr>checked := True\<rparr>) \<and>
   mbimcli_phonebook_options_enabled (parse_command_line [Opt_phonebook_delete 0]) initial =
     (Returned False, initial\<lparr>checked := True\<rparr>) \<and>
   commands (trace (mbimcli_phonebook_run (parse_command_line [Opt_phonebook_read 0])
                      dev cancel garbage w)) = commands (trace w) \<and>
   commands (trace (mbimcli_phonebook_run (parse_command_line [Opt_phonebook_delete 0])
                      dev cancel garbage w)) = commands (trace w)"
proof -
  have r: "parse_command_line [Opt_phonebook_read 0] = no_options"
    and d: "parse_command_line [Opt_phonebook_delete 0] = no_options"
    by (simp_all add: parse_command_line_def no_options_def)
  have sel: "mbimcli_phonebook_options_enabled no_options initial =
     (Returned False, initial\<lparr>checked := True\<rparr>)"
    by (simp add: mbimcli_phonebook_options_enabled_def no_options_def initial_def)
  have run: "commands (trace (mbimcli_phonebook_run no_options dev cancel garbage w)) =
     commands (trace w)"
    by (simp add: run_defs no_options_def commands_append split: option.splits)
  from r d sel run show ?thesis by simp
qed

subsection \<open>The input parser\<close>

lemma length_split_pieces: "length (split_pieces piece str) = Suc (count_list str (CHR '',''))"
  by (induction str arbitrary: piece) simp_all

lemma length_g_strsplit:
  "length (g_strsplit str) = (if str = [] then 0 else Suc (count_list str (CHR '','')))"
  by (simp add: g_strsplit_def length_split_pieces)

text \<open>
  Claim C4. For an expected count \<open>n\<close> of 2 or 3, the parser returns the fields exactly
  when the split on commas has \<open>n\<close> pieces (the third field is \<open>NULL\<close> for \<open>n = 2\<close>);
  with fewer pieces it prints the missing-arguments error, with more the
  too-many-arguments error, and returns \<open>FALSE\<close> in both cases.
\<close>

theorem input_parse_exact_field_count:
  assumes "n = 2 \<or> n = 3"
  shows "(length (g_strsplit str) = n \<longrightarrow>
            phonebook_write_input_parse n str w =
              (Returned (Some (Some (g_strsplit str ! 0), Some (g_strsplit str ! 1),
                               if n = 3 then Some (g_strsplit str ! 2) else None)),
               emit Free_vector w)) \<and>
         (length (g_strsplit str) < n \<longrightarrow>
            phonebook_write_input_parse n str w =
              (Returned None,
               emits [Printerr (''error: couldn't parse input string, missing arguments'' @ nl),
                      Strfreev] w)) \<and>
         (length (g_strsplit str) > n \<longrightarrow>
            phonebook_write_input_parse n str w =
              (Returned None,
               emits [Printerr (''error: couldn't parse input string, too many arguments'' @ nl),
                      Strfreev] w))"
  using assms by (auto simp: phonebook_write_input_parse_def Let_def strv_nth_def)

theorem input_parse_exact_field_count_witness:
  "phonebook_write_input_parse 2 ''Alice,555-1000'' initial =
     (Returned (Some (Some ''Alice'', Some ''555-1000'', None)), emit Free_vector initial) \<and>
   phonebook_write_input_parse 3 ''Alice,555-1000,4'' initial =
     (Returned (Some (Some ''Alice'', Some ''555-1000'', Some ''4'')), emit Free_vector initial) \<and>
   phonebook_write_input_parse 2 ''OnlyName'' initial =
     (Returned None,
      emits [Printerr (''error: couldn't parse input string, missing arguments'' @ nl), Strfreev]
        initial) \<and>
   phonebook_write_input_parse 2 ''A,B,C,D'' initial =
     (Returned None,
      emits [Printerr (''error: couldn't parse input string, too many arguments'' @ nl), Strfreev]
        initial)"
proof -
  have s1: "g_strsplit ''Alice,555-1000'' = [''Alice'', ''555-1000'']"
    and s2: "g_strsplit ''Alice,555-1000,4'' = [''Alice'', ''555-1000'', ''4'']"
    and s3: "g_strsplit ''OnlyName'' = [''OnlyName'']"
    and s4: "g_strsplit ''A,B,C,D'' = [''A'', ''B'', ''C'', ''D'']"
    by (simp_all add: g_strsplit_def)
  show ?thesis
    using input_parse_exact_field_count [of 2 "''Alice,555-1000''" initial]
      input_parse_exact_field_count [of 3 "''Alice,555-1000,4''" initial]
      input_parse_exact_field_count [of 2 "''OnlyName''" initial]
      input_parse_exact_field_count [of 2 "''A,B,C,D''" initial]
    by (simp add: s1 s2 s3 s4)
qed


subsection \<open>The index of an update\<close>

lemma strtol_no_leading_number:
  assumes "no_leading_number str"
  shows "strtol str = 0"
proof (cases "dropWhile isspace str")
  case Nil
  show ?thesis unfolding strtol_def Let_def Nil by simp
next
  case (Cons c cs)
  show ?thesis
  proof (cases "c = CHR ''-'' \<or> c = CHR ''+''")
    case True
    with assms have "digits_value 0 cs = 0"
      unfolding no_leading_number_def Cons by (cases cs) auto
    with True show ?thesis unfolding strtol_def Let_def Cons by auto
  next
    case False
    with assms have "\<not> isdigit c" unfolding no_leading_number_def Cons by simp
    with False show ?thesis unfolding strtol_def Let_def Cons by simp
  qed
qed

lemma atoi_no_leading_number: "no_leading_number str \<Longrightarrow> atoi str = 0"
  by (simp add: atoi_def strtol_no_leading_number)

text \<open>
  Claim C5, as amended. When the third field of an update holds no leading number (after
  white space and an optional sign it does not continue with a digit), the conversion
  yields 0 and the request is built with the save-at-index flag and index 0.
\<close>

theorem update_without_leading_number_index_zero:
  assumes "g_strsplit str = [nm, num, index_text]" and "no_leading_number index_text"
  shows "map (\<lambda>(d, r, t, c, k). r)
           (commands (trace (mbimcli_phonebook_run
              (parse_command_line [Opt_phonebook_entry_update str]) dev cancel garbage w))) =
         map (\<lambda>(d, r, t, c, k). r) (commands (trace w)) @
           [Phonebook_write_set MBIM_PHONEBOOK_WRITE_FLAG_SAVE_INDEX 0 (Some num) (Some nm)]"
  using assms
  by (simp add: run_defs parse_command_line_def no_options_def commands_append strv_nth_def
      atoi_no_leading_number split: option.splits)

theorem update_without_leading_number_index_zero_witness:
  "g_strsplit ''Bob,555-2000,abc'' = [''Bob'', ''555-2000'', ''abc''] \<and>
   no_leading_number ''abc'' \<and>
   map (\<lambda>(d, r, t, c, k). r)
     (commands (trace (mbimcli_phonebook_run
        (parse_command_line [Opt_phonebook_entry_update ''Bob,555-2000,abc'']) 1 (Some 2) None initial))) =
     [Phonebook_write_set MBIM_PHONEBOOK_WRITE_FLAG_SAVE_INDEX 0 (Some ''555-2000'') (Some ''Bob'')]"
proof -
  have a: "g_strsplit ''Bob,555-2000,abc'' = [''Bob'', ''555-2000'', ''abc'']"
    by (simp add: g_strsplit_def)
  have b: "no_leading_number ''abc''"
    by (simp add: no_leading_number_def isspace_def isdigit_def)
  from update_without_leading_number_index_zero [OF a b, of 1 "Some 2" None initial] a b
  show ?thesis by (simp add: initial_def)
qed

text \<open>
  Claim C5 as stated fails: the third field \<open>7x\<close> is not a number, and the request is
  built with index 7.
\<close>

theorem update_non_numeric_index_counterexample:
  "\<not> list_all isdigit ''7x'' \<and>
   commands (trace (mbimcli_phonebook_run
      (parse_command_line [Opt_phonebook_entry_update ''Bob,555-2000,7x'']) 1 (Some 2) None initial)) =
     [(Some 1,
       Phonebook_write_set MBIM_PHONEBOOK_WRITE_FLAG_SAVE_INDEX 7 (Some ''555-2000'') (Some ''Bob''),
       10, Some 2, Set_phonebook_write_ready)] \<and>
   (7 :: guint32) \<noteq> 0"
  by (simp add: run_defs parse_command_line_def no_options_def initial_def g_strsplit_def
      strv_nth_def atoi_def strtol_def isspace_def isdigit_def digit_value_def)


subsection \<open>The request builder\<close>

text \<open>
  Claim C3. For each single action on the command line, \<open>mbimcli_phonebook_run\<close> on a
  session with device \<open>dev\<close> and cancellation token \<open>tok\<close> submits exactly one command:
  the request of the table (configuration query; read by index with the index; read
  all with index 0; delete by index with the index; delete all with index 0; write to
  the first unused slot with index 0, number and name; save at index with \<open>atoi\<close> of
  the third field, number and name), timeout 10, the token, and one callback.
\<close>

theorem request_builder_table:
  "commands (trace (mbimcli_phonebook_run (parse_command_line [Opt_phonebook_query_configuration])
      dev (Some tok) garbage w)) =
     commands (trace w) @
       [(Some dev, Phonebook_configuration_query, 10, Some tok, Query_phonebook_configuration_ready)] \<and>
   (i \<noteq> 0 \<longrightarrow>
    commands (trace (mbimcli_phonebook_run (parse_command_line [Opt_phonebook_read i])
      dev (Some tok) garbage w)) =
     commands (trace w) @
       [(Some dev, Phonebook_read_query MBIM_PHONEBOOK_FLAG_INDEX i, 10, Some tok,
         Query_phonebook_read_ready)]) \<and>
   commands (trace (mbimcli_phonebook_run (parse_command_line [Opt_phonebook_read_all])
      dev (Some tok) garbage w)) =
     commands (trace w) @
       [(Some dev, Phonebook_read_query MBIM_PHONEBOOK_FLAG_ALL 0, 10, Some tok,
         Query_phonebook_read_ready)] \<and>
   (j \<noteq> 0 \<longrightarrow>
    commands (trace (mbimcli_phonebook_run (parse_command_line [Opt_phonebook_delete j])
      dev (Some tok) garbage w)) =
     commands (trace w) @
       [(Some dev, Phonebook_delete_set MBIM_PHONEBOOK_FLAG_INDEX j, 10, Some tok,
         Set_phonebook_delete_ready)]) \<and>
   commands (trace (mbimcli_phonebook_run (parse_command_line [Opt_phonebook_delete_all])
      dev (Some tok) garbage w)) =
     commands (trace w) @
       [(Some dev, Phonebook_delete_set MBIM_PHONEBOOK_FLAG_ALL 0, 10, Some tok,
         Set_phonebook_delete_ready)] \<and>
   (g_strsplit str2 = [nm2, num2] \<longrightarrow>
    commands (trace (mbimcli_phonebook_run (parse_command_line [Opt_phonebook_write str2])
      dev (Some tok) garbage w)) =
     commands (trace w) @
       [(Some dev,
         Phonebook_write_set MBIM_PHONEBOOK_WRITE_FLAG_SAVE_UNUSED 0 (Some num2) (Some nm2),
         10, Some tok, Set_phonebook_write_ready)]) \<and>
   (g_strsplit str3 = [nm3, num3, index_text] \<longrightarrow>
    commands (trace (mbimcli_phonebook_run (parse_command_line [Opt_phonebook_entry_update str3])
      dev (Some tok) garbage w)) =
     commands (trace w) @
       [(Some dev,
         Phonebook_write_set MBIM_PHONEBOOK_WRITE_FLAG_SAVE_INDEX (atoi index_text)
           (Some num3) (Some nm3),
         10, Some tok, Set_phonebook_write_ready)])"
  by (simp add: run_defs parse_command_line_def no_options_def commands_append strv_nth_def)

lemma atoi_42: "atoi ''42'' = 42"
  by (simp add: atoi_def strtol_def isspace_def isdigit_def digit_value_def)

theorem request_builder_table_witness:
  "(5 :: guint32) \<noteq> 0 \<and> (9 :: guint32) \<noteq> 0 \<and>
   g_strsplit ''Alice,555-1000'' = [''Alice'', ''555-1000''] \<and>
   g_strsplit ''Bob,555-2000,42'' = [''Bob'', ''555-2000'', ''42''] \<and>
   commands (trace (mbimcli_phonebook_run (parse_command_line [Opt_phonebook_read 5])
      1 (Some 2) None initial)) =
     [(Some 1, Phonebook_read_query MBIM_PHONEBOOK_FLAG_INDEX 5, 10, Some 2,
       Query_phonebook_read_ready)] \<and>
   commands (trace (mbimcli_phonebook_run (parse_command_line [Opt_phonebook_delete 9])
      1 (Some 2) None initial)) =
     [(Some 1, Phonebook_delete_set MBIM_PHONEBOOK_FLAG_INDEX 9, 10, Some 2,
       Set_phonebook_delete_ready)] \<and>
   commands (trace (mbimcli_phonebook_run (parse_command_line [Opt_phonebook_write ''Alice,555-1000''])
      1 (Some 2) None initial)) =
     [(Some 1,
       Phonebook_write_set MBIM_PHONEBOOK_WRITE_FLAG_SAVE_UNUSED 0 (Some ''555-1000'') (Some ''Alice''),
       10, Some 2, Set_phonebook_write_ready)] \<and>
   commands (trace (mbimcli_phonebook_run
      (parse_command_line [Opt_phonebook_entry_update ''Bob,555-2000,42''])
      1 (Some 2) None initial)) =
     [(Some 1,
       Phonebook_write_set MBIM_PHONEBOOK_WRITE_FLAG_SAVE_INDEX 42 (Some ''555-2000'') (Some ''Bob''),
       10, Some 2, Set_phonebook_write_ready)]"
proof -
  have a: "g_strsplit ''Alice,555-1000'' = [''Alice'', ''555-1000'']"
    and b: "g_strsplit ''Bob,555-2000,42'' = [''Bob'', ''555-2000'', ''42'']"
    by (simp_all add: g_strsplit_def)
  have c: "commands (trace initial) = []"
    by (simp add: initial_def)
  show ?thesis
    using request_builder_table [of 1 2 None initial 5 9 "''Alice,555-1000''" "''Alice''"
        "''555-1000''" "''Bob,555-2000,42''" "''Bob''" "''555-2000''" "''42''"]
    by (simp add: a b c atoi_42)
qed


subsection \<open>The response formatters\<close>




lemmas ready_defs = operation_failed_def parse_failed_def shutdown_def context_free_def
  emit_def emits_def Let_def





text \<open>
  Claim C6. For a parsed configuration response whose state has no label (the lookup
  returns \<open>NULL\<close>), the callback prints the word \<open>unknown\<close> as the state, followed by
  the number of entries, the used entries, the maximal number length and the maximal
  name length; it prints no error and finalizes with \<open>TRUE\<close>.
\<close>

theorem configuration_unknown_state:
  assumes "mbim_message_phonebook_configuration_response_parse cd m = Inr cfg"
    and "mbim_phonebook_state_get_string cd (state cfg) = None"
  shows "stdout_of (trace (query_phonebook_configuration_ready cd (Command_response m) w)) =
         stdout_of (trace w) @
           [nl @ '' Phonebook configuration retrived... '' @ nl @
            tab @ ''   Phonebook state: unknown '' @ nl @
            tab @ '' Number of entries: '' @ printf_d (number_of_entries cfg) @ '' '' @ nl @
            tab @ ''      used entries: '' @ printf_d (used_entries cfg) @ '' '' @ nl @
            tab @ '' max number length: '' @ printf_d (max_number_length cfg) @ '' '' @ nl @
            tab @ ''         max name : '' @ printf_d (max_name cfg) @ '' '' @ nl] \<and>
         stderr_of (trace (query_phonebook_configuration_ready cd (Command_response m) w)) =
           stderr_of (trace w) \<and>
         finalizations (trace (query_phonebook_configuration_ready cd (Command_response m) w)) =
           finalizations (trace w) @ [True]"
  using assms
  by (simp add: query_phonebook_configuration_ready_def ready_defs stdout_of_append
      stderr_of_append finalizations_append configuration_text_def VALIDATE_UNKNOWN_def
      split: ctx_pointer.splits option.splits)

theorem configuration_unknown_state_witness:
  "mbim_message_phonebook_configuration_response_parse example_codec () =
     Inr \<lparr> state = 7, number_of_entries = 250, used_entries = 2,
           max_number_length = 20, max_name = 14 \<rparr> \<and>
   mbim_phonebook_state_get_string example_codec 7 = None \<and>
   stdout_of (trace (query_phonebook_configuration_ready example_codec (Command_response ()) initial)) =
     [nl @ '' Phonebook configuration retrived... '' @ nl @
      tab @ ''   Phonebook state: unknown '' @ nl @
      tab @ '' Number of entries: 250 '' @ nl @
      tab @ ''      used entries: 2 '' @ nl @
      tab @ '' max number length: 20 '' @ nl @
      tab @ ''         max name : 14 '' @ nl] \<and>
   finalizations (trace (query_phonebook_configuration_ready example_codec (Command_response ()) initial)) =
     [True]"
proof -
  have p: "mbim_message_phonebook_configuration_response_parse example_codec () =
     Inr \<lparr> state = 7, number_of_entries = 250, used_entries = 2,
           max_number_length = 20, max_name = 14 \<rparr>"
    by (simp add: example_codec_def)
  have l: "mbim_phonebook_state_get_string example_codec
             (state \<lparr> state = 7, number_of_entries = 250, used_entries = 2,
                      max_number_length = 20, max_name = 14 \<rparr>) = None"
    by (simp add: example_codec_def)
  have d: "printf_d 250 = ''250''" "printf_d 2 = ''2''" "printf_d 20 = ''20''" "printf_d 14 = ''14''"
    by (simp_all add: printf_d_def show_nat.simps)
  from configuration_unknown_state [OF p l, of initial] p l d show ?thesis
    by (simp add: initial_def)
qed


subsection \<open>The completion resolver\<close>









subsection \<open>References and finalization\<close>












text \<open>
  Without a cancellation token the field \<open>ctx->cancellable\<close> is never written: the
  command is submitted with whatever the slice held, and finalization drops a
  reference on it.
\<close>

lemma run_without_cancellable:
  "trace (phonebook_operation example_codec (parse_command_line [Opt_phonebook_delete_all])
      3 None (Some 9) (Command_failed \<lparr> message = ''timeout'' \<rparr>) initial) =
     [Object_ref 3, Debug ''Asynchronously phonebook delete all...'',
      Device_command (Some 3) (Phonebook_delete_set MBIM_PHONEBOOK_FLAG_ALL 0) 10 (Some 9)
        Set_phonebook_delete_ready,
      Message_unref_request,
      Printerr (''error: operation failed: timeout'' @ nl), Error_free,
      Object_unref 9, Object_unref 3, Slice_free, Async_operation_done False]"
  by (simp add: phonebook_operation_def run_defs parse_command_line_def no_options_def
      initial_def invoke_def set_phonebook_delete_ready_def operation_failed_def)

end
